theory Spec2Isabelle
  imports Complex_Main
begin

section \<open>Python values, exceptions and numeric primitives\<close>

text \<open>
  The library under study (\<^verbatim>\<open>differential/differentiable.py\<close> and
  \<^verbatim>\<open>differential/functions.py\<close>) represents a function of one real variable as a pair of
  callables. A Python \<^verbatim>\<open>float\<close> is modelled as the real it denotes: the rounding of a
  result, infinities and NaN are outside the model. What is inside the model is every
  exception the arithmetic raises: \<^verbatim>\<open>+\<close>, \<^verbatim>\<open>-\<close> and \<^verbatim>\<open>*\<close> on floats never raise,
  \<^verbatim>\<open>/\<close> raises on a zero denominator, \<^verbatim>\<open>math.sqrt\<close> raises on a negative argument,
  and \<^verbatim>\<open>**\<close> raises when its result overflows. Exceptions are values: a computation
  returns \<open>Inl e\<close> when it raises \<open>e\<close> and \<open>Inr v\<close> when it returns \<open>v\<close>.

  The exceptions are the ones Python raises here: \<open>ZeroDivisionError\<close> for a zero denominator,
  \<open>ValueError\<close> for \<^verbatim>\<open>math.sqrt\<close> of a negative number (the "math domain error"),
  \<open>KeyError\<close> for a type missing from a dispatch dictionary, \<open>AttributeError\<close> for reading
  \<^verbatim>\<open>.value\<close> or \<^verbatim>\<open>.derivative\<close> of an object that has none, \<open>TypeError\<close> for
  an operator that neither operand implements, and \<open>OverflowError\<close> for a float power
  whose result is out of range.
\<close>

datatype error =
  ZeroDivisionError | ValueError | KeyError | AttributeError | TypeError | OverflowError

type_synonym 'a result = "error + 'a"

text \<open>Sequencing of two computations: the second runs only if the first returned.\<close>

fun and_then :: "'a result \<Rightarrow> ('a \<Rightarrow> 'b result) \<Rightarrow> 'b result" where
  "and_then (Inl e) k = Inl e"
| "and_then (Inr a) k = k a"

text \<open>\<^verbatim>\<open>a / b\<close> on numbers raises on a zero denominator.\<close>

definition py_truediv :: "real \<Rightarrow> real \<Rightarrow> real result" where
  "py_truediv a b = (if b = 0 then Inl ZeroDivisionError else Inr (a / b))"

text \<open>
  \<^verbatim>\<open>b ** 2\<close> on a float. The interpreter calls the C library's \<^verbatim>\<open>pow\<close> on IEEE 754
  doubles (round to nearest) and raises \<open>OverflowError\<close> when the result overflows: the
  largest double is \<open>2 ^ 1024 - 2 ^ 971\<close>, and a square of \<open>2 ^ 1024 - 2 ^ 970\<close> or more
  rounds beyond it. The smallest positive double is \<open>1 / 2 ^ 1074\<close>, and a square of
  \<open>1 / 2 ^ 1075\<close> or less rounds to \<^verbatim>\<open>0.0\<close>, which is returned without an exception. A
  square in between is a nonzero finite float, modelled as the real square.
\<close>

definition float_pow2 :: "real \<Rightarrow> real result" where
  "float_pow2 b =
     (if 2 ^ 1024 - 2 ^ 970 \<le> b\<^sup>2 then Inl OverflowError
      else if b\<^sup>2 \<le> 1 / 2 ^ 1075 then Inr 0
      else Inr (b\<^sup>2))"

text \<open>\<^verbatim>\<open>math.sqrt\<close> raises on a negative argument.\<close>

definition math_sqrt :: "real \<Rightarrow> real result" where
  "math_sqrt a = (if a < 0 then Inl ValueError else Inr (sqrt a))"

section \<open>The class \<^verbatim>\<open>Differentiable\<close>\<close>

text \<open>
  \<^verbatim>\<open>value: Callable[[float], float]\<close> and \<^verbatim>\<open>derivative: Callable[[float], float]\<close>;
  either callable may raise. The field \<^verbatim>\<open>value\<close> is named \<open>value_fn\<close> here.
\<close>

type_synonym mapping = "real \<Rightarrow> real result"

record Differentiable =
  value_fn :: mapping
  derivative :: mapping

text \<open>
  The right-hand operand of an operator is an arbitrary Python object: a \<^verbatim>\<open>float\<close>, an
  \<^verbatim>\<open>int\<close>, a string, \<^verbatim>\<open>None\<close>, a \<^verbatim>\<open>Differentiable\<close>, or an instance of some
  other class. Of the last, \<open>PyObject v d\<close>, the model keeps what this library can see:
  its attributes \<^verbatim>\<open>value\<close> and \<^verbatim>\<open>derivative\<close>, each absent or a callable like
  those of a \<^verbatim>\<open>Differentiable\<close>; its class is not \<^verbatim>\<open>Differentiable\<close> and defines no
  arithmetic operator. The discriminators tell the runtime type: \<open>is_float other\<close> is
  \<^verbatim>\<open>type(other) is float\<close>.
\<close>

datatype pyval =
    is_float: PyFloat real
  | is_int: PyInt int
  | is_str: PyStr string
  | is_None: PyNone
  | is_Differentiable: PyDiff Differentiable
  | is_object: PyObject "mapping option" "mapping option"

text \<open>
  \<^verbatim>\<open>self.other.value(x)\<close> and \<^verbatim>\<open>self.other.derivative(x)\<close>: the attribute is read
  from whatever object is stored, then called. A number, a string and \<^verbatim>\<open>None\<close> have
  no such attribute; another object has it or not.
\<close>

fun other_value :: "pyval \<Rightarrow> mapping" where
  "other_value (PyDiff g) x = value_fn g x"
| "other_value (PyObject v d) x = (case v of None \<Rightarrow> Inl AttributeError | Some m \<Rightarrow> m x)"
| "other_value _ x = Inl AttributeError"

fun other_derivative :: "pyval \<Rightarrow> mapping" where
  "other_derivative (PyDiff g) x = derivative g x"
| "other_derivative (PyObject v d) x = (case d of None \<Rightarrow> Inl AttributeError | Some m \<Rightarrow> m x)"
| "other_derivative _ x = Inl AttributeError"

section \<open>The visitors: one combination rule each\<close>

text \<open>
  Each class stores its constructor argument and builds, in \<^verbatim>\<open>visit\<close>, a new
  \<^verbatim>\<open>Differentiable\<close> from closures over the receiver \<open>one\<close> and the stored operand.
  Inside a closure the operands are evaluated left to right, as Python does, and the first
  exception ends the evaluation. The classes reached through a dispatch dictionary hold
  what their key guarantees (a \<^verbatim>\<open>float\<close> or a \<^verbatim>\<open>Differentiable\<close>);
  \<^verbatim>\<open>_TrueDivDifferentiable\<close> is built from the operand unchecked, so it holds any object.
\<close>

datatype visitor =
    AddConstant real
  | AddDifferentiable Differentiable
  | SubConstant real
  | RSubConstant real
  | SubDifferentiable Differentiable
  | ScaleDifferentiable real
  | MultiplyDifferentiable Differentiable
  | TrueDivDifferentiable pyval

fun visit :: "visitor \<Rightarrow> Differentiable \<Rightarrow> Differentiable" where
  "visit (AddConstant constant) one =
     \<lparr>value_fn = (\<lambda>x. and_then (value_fn one x) (\<lambda>a. Inr (a + constant))),
      derivative = derivative one\<rparr>"
| "visit (AddDifferentiable other) one =
     \<lparr>value_fn = (\<lambda>x. and_then (value_fn one x) (\<lambda>a.
                      and_then (value_fn other x) (\<lambda>b. Inr (a + b)))),
      derivative = (\<lambda>x. and_then (derivative one x) (\<lambda>a'.
                        and_then (derivative other x) (\<lambda>b'. Inr (a' + b'))))\<rparr>"
| "visit (SubConstant constant) one =
     \<lparr>value_fn = (\<lambda>x. and_then (value_fn one x) (\<lambda>a. Inr (a - constant))),
      derivative = derivative one\<rparr>"
| "visit (RSubConstant constant) one =
     \<lparr>value_fn = (\<lambda>x. and_then (value_fn one x) (\<lambda>a. Inr (constant - a))),
      derivative = (\<lambda>x. and_then (derivative one x) (\<lambda>a'. Inr (- a')))\<rparr>"
| "visit (SubDifferentiable other) one =
     \<lparr>value_fn = (\<lambda>x. and_then (value_fn one x) (\<lambda>a.
                      and_then (value_fn other x) (\<lambda>b. Inr (a - b)))),
      derivative = (\<lambda>x. and_then (derivative one x) (\<lambda>a'.
                        and_then (derivative other x) (\<lambda>b'. Inr (a' - b'))))\<rparr>"
| "visit (ScaleDifferentiable scaling) one =
     \<lparr>value_fn = (\<lambda>x. and_then (value_fn one x) (\<lambda>a. Inr (scaling * a))),
      derivative = (\<lambda>x. and_then (derivative one x) (\<lambda>a'. Inr (scaling * a')))\<rparr>"
| "visit (MultiplyDifferentiable other) one =
     \<lparr>value_fn = (\<lambda>x. and_then (value_fn other x) (\<lambda>b.
                      and_then (value_fn one x) (\<lambda>a. Inr (b * a)))),
      derivative = (\<lambda>x. and_then (derivative other x) (\<lambda>b'.
                        and_then (value_fn one x) (\<lambda>a.
                        and_then (derivative one x) (\<lambda>a'.
                        and_then (value_fn other x) (\<lambda>b. Inr (b' * a + a' * b))))))\<rparr>"
| "visit (TrueDivDifferentiable other) one =
     \<lparr>value_fn = (\<lambda>x. and_then (value_fn one x) (\<lambda>a.
                      and_then (other_value other x) (\<lambda>b. py_truediv a b))),
      derivative = (\<lambda>x. and_then (derivative one x) (\<lambda>a'.
                        and_then (other_value other x) (\<lambda>b.
                        and_then (other_derivative other x) (\<lambda>b'.
                        and_then (value_fn one x) (\<lambda>a.
                        and_then (other_value other x) (\<lambda>b2.
                        and_then (float_pow2 b2) (\<lambda>d.
                          py_truediv (a' * b - b' * a) d)))))))\<rparr>"

text \<open>\<^verbatim>\<open>_Visitable.__call__\<close>: \<^verbatim>\<open>return visitor.visit(self)\<close>.\<close>

definition Visitable_call :: "Differentiable \<Rightarrow> visitor \<Rightarrow> Differentiable" where
  "Visitable_call self visitor = visit visitor self"

section \<open>Dispatch dictionaries and operators\<close>

text \<open>
  \<^verbatim>\<open>add_dispatch[type(other)](other)\<close> and its three siblings: each dictionary has exactly
  the keys \<^verbatim>\<open>float\<close> and \<^verbatim>\<open>Differentiable\<close>, the lookup is by the exact runtime type,
  and a missing key raises \<open>KeyError\<close>. The class found is applied to the operand.
\<close>

fun add_dispatch :: "pyval \<Rightarrow> visitor result" where
  "add_dispatch (PyFloat c) = Inr (AddConstant c)"
| "add_dispatch (PyDiff g) = Inr (AddDifferentiable g)"
| "add_dispatch _ = Inl KeyError"

fun mul_dispatch :: "pyval \<Rightarrow> visitor result" where
  "mul_dispatch (PyFloat c) = Inr (ScaleDifferentiable c)"
| "mul_dispatch (PyDiff g) = Inr (MultiplyDifferentiable g)"
| "mul_dispatch _ = Inl KeyError"

fun sub_dispatch :: "pyval \<Rightarrow> visitor result" where
  "sub_dispatch (PyFloat c) = Inr (SubConstant c)"
| "sub_dispatch (PyDiff g) = Inr (SubDifferentiable g)"
| "sub_dispatch _ = Inl KeyError"

fun rsub_dispatch :: "pyval \<Rightarrow> visitor result" where
  "rsub_dispatch (PyFloat c) = Inr (RSubConstant c)"
| "rsub_dispatch (PyDiff g) = Inr (SubDifferentiable g)"
| "rsub_dispatch _ = Inl KeyError"

text \<open>
  The operator functions. The dictionary lookup happens when the operator is applied;
  \<^verbatim>\<open>_truediv_operator\<close> has no dictionary and wraps whatever it is given.
\<close>

definition add_operator :: "Differentiable \<Rightarrow> pyval \<Rightarrow> Differentiable result" where
  "add_operator self other = and_then (add_dispatch other) (\<lambda>v. Inr (Visitable_call self v))"

definition sub_operator :: "Differentiable \<Rightarrow> pyval \<Rightarrow> Differentiable result" where
  "sub_operator self other = and_then (sub_dispatch other) (\<lambda>v. Inr (Visitable_call self v))"

definition rsub_operator :: "Differentiable \<Rightarrow> pyval \<Rightarrow> Differentiable result" where
  "rsub_operator self other = and_then (rsub_dispatch other) (\<lambda>v. Inr (Visitable_call self v))"

definition mul_operator :: "Differentiable \<Rightarrow> pyval \<Rightarrow> Differentiable result" where
  "mul_operator self other = and_then (mul_dispatch other) (\<lambda>v. Inr (Visitable_call self v))"

definition truediv_operator :: "Differentiable \<Rightarrow> pyval \<Rightarrow> Differentiable result" where
  "truediv_operator self other = Inr (Visitable_call self (TrueDivDifferentiable other))"

text \<open>
  The methods installed on the class. \<^verbatim>\<open>__add__\<close>, \<^verbatim>\<open>__sub__\<close>, \<^verbatim>\<open>__mul__\<close> and
  \<^verbatim>\<open>__truediv__\<close> serve a \<^verbatim>\<open>Differentiable\<close> on the left; \<^verbatim>\<open>__radd__\<close>,
  \<^verbatim>\<open>__rsub__\<close> and \<^verbatim>\<open>__rmul__\<close> serve one on the right. No \<^verbatim>\<open>__rtruediv__\<close> is
  installed.
\<close>

datatype binop = Add | Sub | Mul | TrueDiv

fun forward_method :: "binop \<Rightarrow> Differentiable \<Rightarrow> pyval \<Rightarrow> Differentiable result" where
  "forward_method Add = add_operator"
| "forward_method Sub = sub_operator"
| "forward_method Mul = mul_operator"
| "forward_method TrueDiv = truediv_operator"

fun reflected_method :: "binop \<Rightarrow> (Differentiable \<Rightarrow> pyval \<Rightarrow> Differentiable result) option" where
  "reflected_method Add = Some add_operator"
| "reflected_method Sub = Some rsub_operator"
| "reflected_method Mul = Some mul_operator"
| "reflected_method TrueDiv = None"

text \<open>
  Python's evaluation of a binary expression with a \<^verbatim>\<open>Differentiable\<close> operand.
  \<open>binary_expr_left\<close> is \<^verbatim>\<open>f op other\<close>, with the \<^verbatim>\<open>Differentiable\<close> on the left:
  the forward method is called. \<open>binary_expr_right\<close> is \<^verbatim>\<open>c op f\<close>, with a
  \<^verbatim>\<open>Differentiable\<close> on the right: when \<open>c\<close> is a \<^verbatim>\<open>Differentiable\<close> too, its
  forward method is called; otherwise the type of \<open>c\<close> does not know the right operand
  (its own method answers \<^verbatim>\<open>NotImplemented\<close> or is missing), so the reflected method of
  the right operand is called with the operands swapped, and with no reflected method the
  interpreter raises \<open>TypeError\<close>.
\<close>

definition binary_expr_left :: "binop \<Rightarrow> Differentiable \<Rightarrow> pyval \<Rightarrow> Differentiable result" where
  "binary_expr_left bop f other = forward_method bop f other"

fun binary_expr_right :: "binop \<Rightarrow> pyval \<Rightarrow> Differentiable \<Rightarrow> Differentiable result" where
  "binary_expr_right bop (PyDiff g) f = forward_method bop g (PyDiff f)"
| "binary_expr_right bop c f =
     (case reflected_method bop of None \<Rightarrow> Inl TypeError | Some m \<Rightarrow> m f c)"

section \<open>Elementary functions\<close>

text \<open>\<^verbatim>\<open>functions.py\<close>: \<^verbatim>\<open>Sqrt\<close>, \<^verbatim>\<open>Constant\<close> and \<^verbatim>\<open>Linear\<close>.\<close>

definition Sqrt :: "Differentiable \<Rightarrow> Differentiable" where
  "Sqrt f =
     \<lparr>value_fn = (\<lambda>x. and_then (value_fn f x) math_sqrt),
      derivative = (\<lambda>x. and_then (derivative f x) (\<lambda>a'.
                        and_then (value_fn f x) (\<lambda>a.
                        and_then (math_sqrt a) (\<lambda>r. py_truediv (0.5 * a') r))))\<rparr>"

definition Constant :: "real \<Rightarrow> Differentiable" where
  "Constant k = \<lparr>value_fn = (\<lambda>_. Inr k), derivative = (\<lambda>_. Inr 0)\<rparr>"

definition Linear :: "real \<Rightarrow> Differentiable" where
  "Linear k = \<lparr>value_fn = (\<lambda>x. Inr (k * x)), derivative = (\<lambda>_. Inr k)\<rparr>"

section \<open>Helper facts\<close>

lemma and_then_fails: "isl (and_then m (\<lambda>a. Inl e))"
  by (cases m) simp_all

lemma scalar_has_no_value:
  "is_float other \<or> is_int other \<Longrightarrow> other_value other x = Inl AttributeError"
  by (cases other) simp_all



lemma float_pow2_zero_iff: "float_pow2 b = Inr 0 \<longleftrightarrow> b\<^sup>2 \<le> 1 / 2 ^ 1075"
  by (auto simp: float_pow2_def)


section \<open>Division by a bare scalar\<close>

text \<open>
  Dividing by a bare \<^verbatim>\<open>float\<close> is not refused when the operator is applied:
  \<^verbatim>\<open>Linear(1.0) / 2.0\<close> returns a composite.
\<close>

theorem truediv_scalar_not_rejected: "\<not> isl (truediv_operator (Linear 1) (PyFloat 2))"
  by (simp add: truediv_operator_def)

text \<open>
  Claim C1, as the code has it. The divide operator has no type dispatch: for every
  \<open>f\<close> and every bare scalar operand (a \<^verbatim>\<open>float\<close> or an \<^verbatim>\<open>int\<close>),
  \<^verbatim>\<open>f / c\<close> builds a composite without error. The composite never yields a number:
  its value and its derivative fail at every point, and wherever the corresponding mapping
  of \<open>f\<close> returns, the failure is the \<open>AttributeError\<close> of reading the scalar's missing
  \<^verbatim>\<open>value\<close> attribute.
\<close>

theorem truediv_scalar_fails_lazily:
  assumes "is_float other \<or> is_int other"
  shows "\<exists>h. truediv_operator f other = Inr h
     \<and> (\<forall>x. isl (value_fn h x) \<and> isl (derivative h x))
     \<and> (\<forall>x a. value_fn f x = Inr a \<longrightarrow> value_fn h x = Inl AttributeError)
     \<and> (\<forall>x a'. derivative f x = Inr a' \<longrightarrow> derivative h x = Inl AttributeError)"
proof -
  let ?h = "Visitable_call f (TrueDivDifferentiable other)"
  note na = scalar_has_no_value [OF assms]
  have "isl (value_fn ?h x) \<and> isl (derivative ?h x)" for x
    by (simp add: Visitable_call_def na and_then_fails)
  moreover have "value_fn ?h x = Inl AttributeError" if "value_fn f x = Inr a" for x a
    using that by (simp add: Visitable_call_def na)
  moreover have "derivative ?h x = Inl AttributeError" if "derivative f x = Inr a'" for x a'
    using that by (simp add: Visitable_call_def na)
  ultimately show ?thesis
    unfolding truediv_operator_def by blast
qed

theorem truediv_scalar_fails_lazily_witness:
  "(is_float (PyFloat 2) \<or> is_int (PyFloat 2))
   \<and> value_fn (Linear 1) 3 = Inr 3 \<and> derivative (Linear 1) 3 = Inr 1
   \<and> (\<exists>h. truediv_operator (Linear 1) (PyFloat 2) = Inr h
         \<and> value_fn h 3 = Inl AttributeError \<and> derivative h 3 = Inl AttributeError)"
  using truediv_scalar_fails_lazily [of "PyFloat 2" "Linear 1"] by (auto simp: Linear_def)

text \<open>
  The operand is stored unchecked and only its attributes are read, so an object of
  another class that carries \<^verbatim>\<open>value\<close> and \<^verbatim>\<open>derivative\<close> divides like a
  \<^verbatim>\<open>Differentiable\<close>: with an object whose value is \<open>3\<close> and whose derivative is
  \<open>0\<close>, \<^verbatim>\<open>Linear(6.0) / obj\<close> has value \<open>20\<close> and derivative \<open>2\<close> at \<open>10\<close>.
\<close>

lemma truediv_attribute_carrier_example:
  "\<exists>h. truediv_operator (Linear 6) (PyObject (Some (\<lambda>x. Inr 3)) (Some (\<lambda>x. Inr 0))) = Inr h
     \<and> value_fn h 10 = Inr 20 \<and> derivative h 10 = Inr 2"
  by (simp add: truediv_operator_def Visitable_call_def Linear_def py_truediv_def float_pow2_def)

section \<open>Errors at combination time\<close>

text \<open>
  An operand whose type is in no dispatch dictionary is refused when the operator is
  applied, before any composite exists: \<^verbatim>\<open>Linear(1.0) - "a"\<close> raises \<open>KeyError\<close>.
\<close>

theorem sub_str_rejected_at_combination:
  "sub_operator (Linear 1) (PyStr ''a'') = Inl KeyError"
  by (simp add: sub_operator_def)

text \<open>
  Claim C2, as the code has it. For a right-hand operand that is a \<^verbatim>\<open>float\<close> or a
  \<^verbatim>\<open>Differentiable\<close>, addition, subtraction, reverse subtraction and multiplication
  raise nothing at combination time, and division raises nothing for any operand
  whatsoever; this holds for all \<open>f\<close> and \<open>g\<close>, whatever their mappings do, since no
  mapping is called. For an operand of any other type, addition, subtraction, reverse
  subtraction and multiplication raise \<open>KeyError\<close> at combination time.
\<close>

theorem combination_time_outcomes:
  "\<not> isl (add_operator f (PyFloat c)) \<and> \<not> isl (add_operator f (PyDiff g))
   \<and> \<not> isl (sub_operator f (PyFloat c)) \<and> \<not> isl (sub_operator f (PyDiff g))
   \<and> \<not> isl (rsub_operator f (PyFloat c)) \<and> \<not> isl (rsub_operator f (PyDiff g))
   \<and> \<not> isl (mul_operator f (PyFloat c)) \<and> \<not> isl (mul_operator f (PyDiff g))
   \<and> \<not> isl (truediv_operator f other)
   \<and> add_operator f (PyInt n) = Inl KeyError \<and> add_operator f (PyStr s) = Inl KeyError
   \<and> add_operator f PyNone = Inl KeyError
   \<and> sub_operator f (PyInt n) = Inl KeyError \<and> sub_operator f (PyStr s) = Inl KeyError
   \<and> sub_operator f PyNone = Inl KeyError
   \<and> rsub_operator f (PyInt n) = Inl KeyError \<and> rsub_operator f (PyStr s) = Inl KeyError
   \<and> rsub_operator f PyNone = Inl KeyError
   \<and> mul_operator f (PyInt n) = Inl KeyError \<and> mul_operator f (PyStr s) = Inl KeyError
   \<and> mul_operator f PyNone = Inl KeyError
   \<and> add_operator f (PyObject v d) = Inl KeyError
   \<and> sub_operator f (PyObject v d) = Inl KeyError
   \<and> rsub_operator f (PyObject v d) = Inl KeyError
   \<and> mul_operator f (PyObject v d) = Inl KeyError"
  by (simp add: add_operator_def sub_operator_def rsub_operator_def mul_operator_def
      truediv_operator_def)

section \<open>Scalar operands: which are accepted\<close>

text \<open>
  An integer-valued scalar given as an \<^verbatim>\<open>int\<close> is refused: \<^verbatim>\<open>Linear(1.0) * 2\<close> raises
  \<open>KeyError\<close>, since \<^verbatim>\<open>type(2)\<close> is \<^verbatim>\<open>int\<close> and the dictionary has the key
  \<^verbatim>\<open>float\<close>.
\<close>

theorem mul_int_rejected: "mul_operator (Linear 1) (PyInt 2) = Inl KeyError"
  by (simp add: mul_operator_def)

text \<open>
  Claim C3, as the code has it. Addition, subtraction and multiplication accept a scalar
  given as a \<^verbatim>\<open>float\<close> and select the constant rule for it: at a point where the
  mappings of \<open>f\<close> return \<open>a\<close> and \<open>a'\<close>, \<^verbatim>\<open>f + c\<close> has value \<open>a + c\<close> and derivative
  \<open>a'\<close>, \<^verbatim>\<open>f - c\<close> has value \<open>a - c\<close> and derivative \<open>a'\<close>, and \<^verbatim>\<open>f * c\<close> has value
  \<open>c * a\<close> and derivative \<open>c * a'\<close>. They accept a \<^verbatim>\<open>Differentiable\<close>. Every operand
  of another type, an \<^verbatim>\<open>int\<close> included, raises \<open>KeyError\<close>.
\<close>

theorem float_constant_rules:
  assumes "value_fn f x = Inr a" and "derivative f x = Inr a'"
  shows "(\<exists>h. add_operator f (PyFloat c) = Inr h
            \<and> value_fn h x = Inr (a + c) \<and> derivative h x = Inr a')
       \<and> (\<exists>h. sub_operator f (PyFloat c) = Inr h
            \<and> value_fn h x = Inr (a - c) \<and> derivative h x = Inr a')
       \<and> (\<exists>h. mul_operator f (PyFloat c) = Inr h
            \<and> value_fn h x = Inr (c * a) \<and> derivative h x = Inr (c * a'))
       \<and> \<not> isl (add_operator f (PyDiff g)) \<and> \<not> isl (sub_operator f (PyDiff g))
       \<and> \<not> isl (mul_operator f (PyDiff g))
       \<and> (\<not> is_float other \<and> \<not> is_Differentiable other \<longrightarrow>
            add_operator f other = Inl KeyError \<and> sub_operator f other = Inl KeyError
            \<and> mul_operator f other = Inl KeyError)"
  using assms
  by (cases other)
    (simp_all add: add_operator_def sub_operator_def mul_operator_def Visitable_call_def)

theorem float_constant_rules_witness:
  "value_fn (Linear 3) 5 = Inr 15 \<and> derivative (Linear 3) 5 = Inr 3
   \<and> \<not> is_float (PyInt 2) \<and> \<not> is_Differentiable (PyInt 2)
   \<and> (\<exists>h. add_operator (Linear 3) (PyFloat 2) = Inr h
            \<and> value_fn h 5 = Inr 17 \<and> derivative h 5 = Inr 3)
   \<and> (\<exists>h. sub_operator (Linear 3) (PyFloat 2) = Inr h
            \<and> value_fn h 5 = Inr 13 \<and> derivative h 5 = Inr 3)
   \<and> (\<exists>h. mul_operator (Linear 3) (PyFloat 2) = Inr h
            \<and> value_fn h 5 = Inr 30 \<and> derivative h 5 = Inr 6)
   \<and> add_operator (Linear 3) (PyInt 2) = Inl KeyError"
  using float_constant_rules [of "Linear 3" 5 15 3 2 "Linear 1" "PyInt 2"]
  by (simp add: Linear_def)

section \<open>The quotient rule and its failures\<close>




text \<open>
  Claim C5. A division raises \<open>ZeroDivisionError\<close> exactly when its denominator is zero
  at the evaluation point. Where the values of \<open>f\<close> and \<open>g\<close> return, the value of
  \<^verbatim>\<open>f / g\<close> raises it exactly when \<open>g(x) = 0\<close>. Where all four mappings return, the
  derivative of \<^verbatim>\<open>f / g\<close> raises it exactly when its denominator, the float
  \<^verbatim>\<open>g(x) ** 2\<close>, is zero. Where the mappings of \<open>f\<close> return, the derivative of
  \<^verbatim>\<open>Sqrt(f)\<close> raises it exactly when \<open>f(x) = 0\<close>, a point at which the value of
  \<^verbatim>\<open>Sqrt(f)\<close> returns \<open>0\<close>.
\<close>

theorem division_error_iff_zero_denominator:
  "(\<exists>h. truediv_operator f (PyDiff g) = Inr h
      \<and> (value_fn f x = Inr a \<and> value_fn g x = Inr b
            \<longrightarrow> (value_fn h x = Inl ZeroDivisionError \<longleftrightarrow> b = 0))
      \<and> (value_fn f x = Inr a \<and> derivative f x = Inr a'
          \<and> value_fn g x = Inr b \<and> derivative g x = Inr b'
            \<longrightarrow> (derivative h x = Inl ZeroDivisionError \<longleftrightarrow> float_pow2 b = Inr 0)))
   \<and> (value_fn f x = Inr a \<and> derivative f x = Inr a'
         \<longrightarrow> (derivative (Sqrt f) x = Inl ZeroDivisionError \<longleftrightarrow> a = 0))
   \<and> (value_fn f x = Inr a \<and> a = 0 \<longrightarrow> value_fn (Sqrt f) x = Inr 0)"
proof -
  let ?h = "Visitable_call f (TrueDivDifferentiable (PyDiff g))"
  have v: "value_fn ?h x = Inl ZeroDivisionError \<longleftrightarrow> b = 0"
    if "value_fn f x = Inr a" "value_fn g x = Inr b"
    using that by (simp add: Visitable_call_def py_truediv_def)
  have d: "derivative ?h x = Inl ZeroDivisionError \<longleftrightarrow> float_pow2 b = Inr 0"
    if "value_fn f x = Inr a" "derivative f x = Inr a'"
      "value_fn g x = Inr b" "derivative g x = Inr b'"
  proof (cases "float_pow2 b")
    case (Inl e)
    then have "e = OverflowError"
      by (simp add: float_pow2_def split: if_splits)
    with Inl that show ?thesis
      by (simp add: Visitable_call_def)
  next
    case (Inr r)
    with that show ?thesis
      by (simp add: Visitable_call_def py_truediv_def)
  qed
  have s: "derivative (Sqrt f) x = Inl ZeroDivisionError \<longleftrightarrow> a = 0"
    if "value_fn f x = Inr a" "derivative f x = Inr a'"
    using that by (simp add: Sqrt_def math_sqrt_def py_truediv_def)
  have z: "value_fn (Sqrt f) x = Inr 0" if "value_fn f x = Inr a" "a = 0"
    using that by (simp add: Sqrt_def math_sqrt_def)
  from v d s z show ?thesis
    unfolding truediv_operator_def by blast
qed

theorem division_error_iff_zero_denominator_witness:
  "value_fn (Linear 1) 1 = Inr 1 \<and> derivative (Linear 1) 1 = Inr 1
   \<and> value_fn (Constant 0) 1 = Inr 0 \<and> derivative (Constant 0) 1 = Inr 0
   \<and> float_pow2 0 = Inr 0
   \<and> (\<exists>h. truediv_operator (Linear 1) (PyDiff (Constant 0)) = Inr h
         \<and> value_fn h 1 = Inl ZeroDivisionError \<and> derivative h 1 = Inl ZeroDivisionError)
   \<and> value_fn (Linear 1) 0 = Inr 0 \<and> derivative (Linear 1) 0 = Inr 1
   \<and> derivative (Sqrt (Linear 1)) 0 = Inl ZeroDivisionError
   \<and> value_fn (Sqrt (Linear 1)) 0 = Inr 0
   \<and> derivative (Sqrt (Linear 1)) 1 \<noteq> Inl ZeroDivisionError"
proof -
  have f1: "value_fn (Linear 1) 1 = Inr 1" "derivative (Linear 1) 1 = Inr 1"
    and g1: "value_fn (Constant 0) 1 = Inr 0" "derivative (Constant 0) 1 = Inr 0"
    and f0: "value_fn (Linear 1) 0 = Inr 0" "derivative (Linear 1) 0 = Inr 1"
    and p0: "float_pow2 0 = Inr 0"
    by (simp_all add: Linear_def Constant_def float_pow2_def)
  from division_error_iff_zero_denominator [of "Linear 1" "Constant 0" 1 1 0 1 0]
    division_error_iff_zero_denominator [of "Linear 1" "Constant 0" 0 0 0 1 0]
    f1 g1 f0 p0
  show ?thesis
    by auto
qed

section \<open>The product rule\<close>

text \<open>
  Claim C6. At a point where the mappings of \<open>f\<close> and \<open>g\<close> return, \<^verbatim>\<open>f * g\<close> has value
  \<open>f(x) * g(x)\<close> and derivative \<open>g'(x) * f(x) + f'(x) * g(x)\<close>, with the operands
  evaluated in that order: the derivative of \<open>g\<close> first, so that its failure is the one
  reported, then the value of \<open>f\<close>, then the derivative of \<open>f\<close>, then the value of
  \<open>g\<close>.
\<close>

theorem product_rule:
  assumes "value_fn f x = Inr a" and "derivative f x = Inr a'"
      and "value_fn g x = Inr b" and "derivative g x = Inr b'"
  shows "\<exists>h. mul_operator f (PyDiff g) = Inr h
           \<and> value_fn h x = Inr (a * b)
           \<and> derivative h x = Inr (b' * a + a' * b)
           \<and> (\<forall>y e. derivative g y = Inl e \<longrightarrow> derivative h y = Inl e)
           \<and> (\<forall>y d e. derivative g y = Inr d \<longrightarrow> value_fn f y = Inl e
                 \<longrightarrow> derivative h y = Inl e)
           \<and> (\<forall>y d v e. derivative g y = Inr d \<longrightarrow> value_fn f y = Inr v
                 \<longrightarrow> derivative f y = Inl e \<longrightarrow> derivative h y = Inl e)
           \<and> (\<forall>y d v d' e. derivative g y = Inr d \<longrightarrow> value_fn f y = Inr v
                 \<longrightarrow> derivative f y = Inr d' \<longrightarrow> value_fn g y = Inl e
                 \<longrightarrow> derivative h y = Inl e)"
  using assms by (auto simp: mul_operator_def Visitable_call_def)

theorem product_rule_witness:
  "value_fn (Linear 3) 5 = Inr 15 \<and> derivative (Linear 3) 5 = Inr 3
   \<and> value_fn (Linear 2) 5 = Inr 10 \<and> derivative (Linear 2) 5 = Inr 2
   \<and> (\<exists>h. mul_operator (Linear 3) (PyDiff (Linear 2)) = Inr h
           \<and> value_fn h 5 = Inr 150 \<and> derivative h 5 = Inr 60)"
  using product_rule [of "Linear 3" 5 15 3 "Linear 2" 10 2] by (auto simp: Linear_def)

text \<open>
  The order seen on failing operands: in \<^verbatim>\<open>Sqrt(Constant(-1.0)) * Sqrt(Constant(0.0))\<close>
  the derivative reports the division error of the right operand's derivative, which is
  evaluated first, and the value reports the domain error of the receiver, the right
  operand's value having returned.
\<close>

lemma product_evaluation_order_example:
  "\<exists>h. mul_operator (Sqrt (Constant (- 1))) (PyDiff (Sqrt (Constant 0))) = Inr h
     \<and> derivative h 0 = Inl ZeroDivisionError \<and> value_fn h 0 = Inl ValueError"
  by (simp add: mul_operator_def Visitable_call_def Sqrt_def Constant_def math_sqrt_def
      py_truediv_def)

section \<open>Square root\<close>

text \<open>
  Claim C7. At a point where the value of \<open>f\<close> returns \<open>a\<close>, the value of
  \<^verbatim>\<open>Sqrt(f)\<close> raises \<open>ValueError\<close> (the domain error) if \<open>a < 0\<close> and returns
  \<open>sqrt a\<close> otherwise.
\<close>

theorem sqrt_value_domain:
  assumes "value_fn f x = Inr a"
  shows "(a < 0 \<longrightarrow> value_fn (Sqrt f) x = Inl ValueError)
       \<and> (0 \<le> a \<longrightarrow> value_fn (Sqrt f) x = Inr (sqrt a))"
  using assms by (simp add: Sqrt_def math_sqrt_def)

theorem sqrt_value_domain_witness:
  "value_fn (Constant (- 1)) 0 = Inr (- 1) \<and> (- 1 :: real) < 0
   \<and> value_fn (Sqrt (Constant (- 1))) 0 = Inl ValueError
   \<and> value_fn (Constant 4) 0 = Inr 4 \<and> (0 :: real) \<le> 4
   \<and> value_fn (Sqrt (Constant 4)) 0 = Inr 2"
  using sqrt_value_domain [of "Constant (- 1)" 0 "- 1"] sqrt_value_domain [of "Constant 4" 0 4]
  by (simp add: Constant_def)

section \<open>A scalar on the left\<close>

text \<open>
  Claim C8. For a scalar \<open>c\<close> and a point where the mappings of \<open>f\<close> return \<open>a\<close> and
  \<open>a'\<close>, \<^verbatim>\<open>f + c\<close> and \<^verbatim>\<open>c + f\<close> both have value \<open>a + c\<close> and derivative \<open>a'\<close>, and
  \<^verbatim>\<open>f * c\<close> and \<^verbatim>\<open>c * f\<close> both have value \<open>c * a\<close> and derivative \<open>c * a'\<close>. Indeed for
  any left operand that is not a \<^verbatim>\<open>Differentiable\<close> the left form and the right form
  have the same outcome, the same composite or the same error.
\<close>

theorem left_scalar_same_as_right:
  assumes "value_fn f x = Inr a" and "derivative f x = Inr a'"
  shows "(\<exists>h k. binary_expr_left Add f (PyFloat c) = Inr h
            \<and> binary_expr_right Add (PyFloat c) f = Inr k
            \<and> value_fn h x = Inr (a + c) \<and> value_fn k x = Inr (a + c)
            \<and> derivative h x = Inr a' \<and> derivative k x = Inr a')
       \<and> (\<exists>h k. binary_expr_left Mul f (PyFloat c) = Inr h
            \<and> binary_expr_right Mul (PyFloat c) f = Inr k
            \<and> value_fn h x = Inr (c * a) \<and> value_fn k x = Inr (c * a)
            \<and> derivative h x = Inr (c * a') \<and> derivative k x = Inr (c * a'))
       \<and> (\<not> is_Differentiable other \<longrightarrow>
            binary_expr_right Add other f = binary_expr_left Add f other
            \<and> binary_expr_right Mul other f = binary_expr_left Mul f other)"
  using assms
  by (cases other)
    (simp_all add: binary_expr_left_def add_operator_def mul_operator_def Visitable_call_def)

theorem left_scalar_same_as_right_witness:
  "value_fn (Linear (- 1)) 4 = Inr (- 4) \<and> derivative (Linear (- 1)) 4 = Inr (- 1)
   \<and> \<not> is_Differentiable (PyFloat 5)
   \<and> (\<exists>h k. binary_expr_left Add (Linear (- 1)) (PyFloat 5) = Inr h
          \<and> binary_expr_right Add (PyFloat 5) (Linear (- 1)) = Inr k
          \<and> value_fn h 4 = Inr 1 \<and> value_fn k 4 = Inr 1
          \<and> derivative h 4 = Inr (- 1) \<and> derivative k 4 = Inr (- 1))
   \<and> binary_expr_right Mul (PyFloat 5) (Linear (- 1))
       = binary_expr_left Mul (Linear (- 1)) (PyFloat 5)"
proof -
  have v: "value_fn (Linear (- 1)) 4 = Inr (- 4)" and d: "derivative (Linear (- 1)) 4 = Inr (- 1)"
    by (simp_all add: Linear_def)
  have n: "\<not> is_Differentiable (PyFloat 5)"
    by simp
  from left_scalar_same_as_right [OF v d, of 5 "PyFloat 5"] n v d show ?thesis
    by auto
qed

text \<open>
  A scalar given as an \<^verbatim>\<open>int\<close> is refused on the left of a subtraction:
  \<^verbatim>\<open>10 - Linear(2.0)\<close> raises \<open>KeyError\<close>.
\<close>

theorem rsub_int_rejected: "binary_expr_right Sub (PyInt 10) (Linear 2) = Inl KeyError"
  by (simp add: rsub_operator_def)

text \<open>
  Claim C9, as the code has it. For a scalar \<open>c\<close> given as a \<^verbatim>\<open>float\<close> and a point
  where the mappings of \<open>f\<close> return \<open>a\<close> and \<open>a'\<close>, the reverse subtraction
  \<^verbatim>\<open>c - f\<close> has value \<open>c - a\<close> and derivative \<open>- a'\<close>, while \<^verbatim>\<open>f - c\<close> has value
  \<open>a - c\<close> and derivative \<open>a'\<close>. A scalar given as an \<^verbatim>\<open>int\<close> is refused by both
  forms with \<open>KeyError\<close>.
\<close>

theorem subtraction_sign_asymmetry:
  assumes "value_fn f x = Inr a" and "derivative f x = Inr a'"
  shows "(\<exists>h. binary_expr_right Sub (PyFloat c) f = Inr h
            \<and> value_fn h x = Inr (c - a) \<and> derivative h x = Inr (- a'))
       \<and> (\<exists>k. binary_expr_left Sub f (PyFloat c) = Inr k
            \<and> value_fn k x = Inr (a - c) \<and> derivative k x = Inr a')
       \<and> binary_expr_right Sub (PyInt n) f = Inl KeyError
       \<and> binary_expr_left Sub f (PyInt n) = Inl KeyError"
  using assms
  by (simp add: binary_expr_left_def sub_operator_def rsub_operator_def Visitable_call_def)

theorem subtraction_sign_asymmetry_witness:
  "value_fn (Linear 2) (3/2) = Inr 3 \<and> derivative (Linear 2) (3/2) = Inr 2
   \<and> (\<exists>h. binary_expr_right Sub (PyFloat 10) (Linear 2) = Inr h
            \<and> value_fn h (3/2) = Inr 7 \<and> derivative h (3/2) = Inr (- 2))
   \<and> (\<exists>k. binary_expr_left Sub (Linear 2) (PyFloat 10) = Inr k
            \<and> value_fn k (3/2) = Inr (- 7) \<and> derivative k (3/2) = Inr 2)
   \<and> binary_expr_left Sub (Linear 2) (PyInt 10) = Inl KeyError"
  using subtraction_sign_asymmetry [of "Linear 2" "3/2" 3 2 10 10] by (simp add: Linear_def)

text \<open>
  Claim C10. The class installs no reflected division method, so \<^verbatim>\<open>c / f\<close> with a
  scalar \<open>c\<close> on the left raises \<open>TypeError\<close> where it is written; it builds no composite
  and so is not \<^verbatim>\<open>Constant(c) / f\<close>, which does build one.
\<close>

theorem no_reflected_division:
  "reflected_method TrueDiv = None
   \<and> binary_expr_right TrueDiv (PyFloat k) f = Inl TypeError
   \<and> binary_expr_right TrueDiv (PyInt n) f = Inl TypeError
   \<and> \<not> isl (binary_expr_left TrueDiv (Constant k) (PyDiff f))
   \<and> binary_expr_right TrueDiv (PyFloat k) f \<noteq> binary_expr_left TrueDiv (Constant k) (PyDiff f)"
  by (simp add: binary_expr_left_def truediv_operator_def)

end
